theory Spec2Isabelle
  imports Complex_Main "HOL-Library.Multiset" "HOL-Library.Sublist"
begin

section \<open>Python string operations used by both scripts\<close>

text \<open>
  A Python string is modelled by its UTF-8 encoding, a list of bytes. \<open>py_lower\<close> lowers
  the ASCII letters and leaves every other byte alone; the scripts only compare its result
  with "status", and no character outside ASCII lower-cases to a letter of that word.
\<close>

definition py_lower_char :: "char \<Rightarrow> char" where
  "py_lower_char c =
     (let n = (of_char c :: nat) in if 65 \<le> n \<and> n \<le> 90 then char_of (n + 32) else c)"

definition py_lower :: "string \<Rightarrow> string" where
  "py_lower s = map py_lower_char s"

text \<open>
  \<open>str.strip()\<close> removes from both ends every character for which \<open>str.isspace()\<close>
  holds. These are the code points below: the ASCII controls 9 to 13 and 28 to 31, the
  space, U+0085, U+00A0, U+1680, U+2000 to U+200A, U+2028, U+2029, U+202F, U+205F and
  U+3000. \<open>utf8\<close> encodes a code point below 65536.
\<close>

definition utf8 :: "nat \<Rightarrow> string" where
  "utf8 n =
     (if n < 128 then [char_of n]
      else if n < 2048 then [char_of (192 + n div 64), char_of (128 + n mod 64)]
      else [char_of (224 + n div 4096), char_of (128 + n div 64 mod 64),
            char_of (128 + n mod 64)])"

definition whitespace_code_points :: "nat list" where
  "whitespace_code_points =
     [9, 10, 11, 12, 13, 28, 29, 30, 31, 32, 133, 160, 5760,
      8192, 8193, 8194, 8195, 8196, 8197, 8198, 8199, 8200, 8201, 8202,
      8232, 8233, 8239, 8287, 12288]"

definition py_whitespace :: "string list" where
  "py_whitespace = map utf8 whitespace_code_points"

text \<open>
  \<open>py_lstrip\<close> drops whitespace characters from the front as long as there is one,
  \<open>py_rstrip\<close> from the back.
\<close>

function py_lstrip :: "string \<Rightarrow> string" where
  "py_lstrip s =
     (case find (\<lambda>e. prefix e s) py_whitespace of
        None \<Rightarrow> s
      | Some e \<Rightarrow> py_lstrip (drop (length e) s))"
  by pat_completeness auto
termination
proof (relation "measure length")
  show "wf (measure length)" by simp
next
  fix s e
  assume "find (\<lambda>e. prefix e s) py_whitespace = Some e"
  then have "e \<in> set py_whitespace" and p: "prefix e s"
    by (auto simp: find_Some_iff)
  then have "e \<noteq> []"
    by (auto simp: py_whitespace_def utf8_def)
  with p have "0 < length e" "length e \<le> length s"
    by (auto simp: prefix_length_le)
  then have "length s - length e < length s" by linarith
  then show "(drop (length e) s, s) \<in> measure length" by simp
qed

function py_rstrip :: "string \<Rightarrow> string" where
  "py_rstrip s =
     (case find (\<lambda>e. suffix e s) py_whitespace of
        None \<Rightarrow> s
      | Some e \<Rightarrow> py_rstrip (take (length s - length e) s))"
  by pat_completeness auto
termination
proof (relation "measure length")
  show "wf (measure length)" by simp
next
  fix s e
  assume "find (\<lambda>e. suffix e s) py_whitespace = Some e"
  then have "e \<in> set py_whitespace" and p: "suffix e s"
    by (auto simp: find_Some_iff)
  then have "e \<noteq> []"
    by (auto simp: py_whitespace_def utf8_def)
  with p have "0 < length e" "length e \<le> length s"
    by (auto simp: suffix_length_le)
  then have "length s - length e < length s" by linarith
  then show "(take (length s - length e) s, s) \<in> measure length" by simp
qed

definition py_strip :: "string \<Rightarrow> string" where
  "py_strip s = py_rstrip (py_lstrip s)"

text \<open>\<open>s.split(sep)\<close> for a one-character separator: the empty string gives one empty token.\<close>

fun py_split :: "char \<Rightarrow> string \<Rightarrow> string list" where
  "py_split sep [] = [[]]"
| "py_split sep (c # cs) =
     (if c = sep then [] # py_split sep cs
      else (case py_split sep cs of
              [] \<Rightarrow> [[c]]
            | w # ws \<Rightarrow> (c # w) # ws))"

text \<open>\<open>sep.join(xs)\<close>.\<close>

fun py_join :: "string \<Rightarrow> string list \<Rightarrow> string" where
  "py_join sep [] = []"
| "py_join sep [x] = x"
| "py_join sep (x # y # ys) = x @ sep @ py_join sep (y # ys)"

section \<open>dashboard.py: the metrics over the loaded CSV\<close>

text \<open>
  One row of the data frame read from the CSV. A text cell that is empty in the file is
  NaN in pandas: \<open>None\<close> here. Timestamps are pandas timestamps, counted in nanoseconds
  (timezone-naive after \<open>tz_localize(None)\<close>); a calendar date is a day number.
\<close>

record row =
  title :: "string option"
  number :: "int option"
  url :: "string option"
  assignees :: "string option"
  labels :: "string option"
  status :: "string option"
  created_at :: int
  updated_at :: int

definition ns_per_day :: int where
  "ns_per_day = 86400000000000"

text \<open>\<open>.dt.date\<close> of a timestamp, and \<open>.dt.days\<close> of a time difference (both round down).\<close>

definition dt_date :: "int \<Rightarrow> int" where
  "dt_date ts = ts div ns_per_day"

definition dt_days :: "int \<Rightarrow> int" where
  "dt_days delta = delta div ns_per_day"

text \<open>\<open>str(x)\<close> and \<open>fillna("")\<close> of a text cell.\<close>

definition py_str :: "string option \<Rightarrow> string" where
  "py_str cell = (case cell of None \<Rightarrow> ''nan'' | Some s \<Rightarrow> s)"


text \<open>\<open>[t.strip() for t in s.split(",") if t.strip()]\<close>.\<close>

definition strip_tokens :: "string \<Rightarrow> string list" where
  "strip_tokens s = map py_strip (filter (\<lambda>t. py_strip t \<noteq> []) (py_split (CHR '','') s))"

definition done_statuses :: "string list" where
  "done_statuses = [''Done'', ''Closed'']"

text \<open>\<open>Series.isin\<close> on one cell, and Python's \<open>in\<close> on a list: NaN is in no list of strings.\<close>

definition isin :: "string option \<Rightarrow> string list \<Rightarrow> bool" where
  "isin cell vs = (case cell of None \<Rightarrow> False | Some s \<Rightarrow> s \<in> set vs)"

definition filtered_df :: "row list \<Rightarrow> int \<Rightarrow> int \<Rightarrow> row list" where
  "filtered_df df start_date end_date =
     filter (\<lambda>r. dt_date (created_at r) \<ge> start_date \<and> dt_date (created_at r) \<le> end_date) df"

definition total_items :: "row list \<Rightarrow> int \<Rightarrow> int \<Rightarrow> nat" where
  "total_items df start_date end_date = length (filtered_df df start_date end_date)"

definition completed_items :: "row list \<Rightarrow> int \<Rightarrow> int \<Rightarrow> row list" where
  "completed_items df start_date end_date =
     filter (\<lambda>r. isin (status r) done_statuses) (filtered_df df start_date end_date)"

text \<open>The rate is a Python float; it is modelled as the exact real number.\<close>

definition completion_rate :: "row list \<Rightarrow> int \<Rightarrow> int \<Rightarrow> real" where
  "completion_rate df start_date end_date =
     (if total_items df start_date end_date > 0
      then real (length (completed_items df start_date end_date))
             / real (total_items df start_date end_date) * 100
      else 0)"

definition completion_days :: "row \<Rightarrow> int" where
  "completion_days r = dt_days (updated_at r - created_at r)"

definition mean :: "int list \<Rightarrow> real" where
  "mean xs = real_of_int (sum_list xs) / real (length xs)"

text \<open>\<open>None\<close> is the branch that only reports "No completed items".\<close>

definition avg_completion :: "row list \<Rightarrow> int \<Rightarrow> int \<Rightarrow> real option" where
  "avg_completion df start_date end_date =
     (if completed_items df start_date end_date \<noteq> []
      then Some (mean (map completion_days (completed_items df start_date end_date)))
      else None)"

definition closed_df :: "row list \<Rightarrow> int \<Rightarrow> int \<Rightarrow> row list" where
  "closed_df df start_date end_date =
     filter (\<lambda>r. isin (status r) done_statuses) (filtered_df df start_date end_date)"

text \<open>The rows appended to \<open>assignee_status\<close> for one data-frame row, and the whole list.\<close>

definition assignee_status_of :: "row \<Rightarrow> (string \<times> string) list" where
  "assignee_status_of r =
     map (\<lambda>a. (a, if isin (status r) done_statuses then ''Closed'' else ''Open''))
       (strip_tokens (py_str (assignees r)))"

definition assignee_status :: "row list \<Rightarrow> int \<Rightarrow> int \<Rightarrow> (string \<times> string) list" where
  "assignee_status df start_date end_date =
     foldl (\<lambda>acc r. acc @ assignee_status_of r) [] (filtered_df df start_date end_date)"

definition stale :: "row list \<Rightarrow> int \<Rightarrow> int \<Rightarrow> int \<Rightarrow> row list" where
  "stale df start_date end_date now =
     filter (\<lambda>r. \<not> isin (status r) done_statuses \<and> dt_days (now - updated_at r) > 30)
       (filtered_df df start_date end_date)"

definition recently_closed :: "row list \<Rightarrow> int \<Rightarrow> int \<Rightarrow> int \<Rightarrow> row list" where
  "recently_closed df start_date end_date now =
     filter (\<lambda>r. dt_days (now - updated_at r) \<le> 30) (completed_items df start_date end_date)"






section \<open>fetch_github_project_items.py: paging and flattening of project items\<close>

text \<open>
  The JSON objects of a response are records with one optional field per key the script
  reads with \<open>.get\<close> or tests with \<open>in\<close>: \<open>None\<close> is an absent key. \<open>c_assignees\<close> and
  \<open>c_labels\<close> hold the logins and names under \<open>nodes\<close> when the key is there.
  Timestamps are the ISO-8601 strings of the response.
\<close>

record content =
  c_title :: "string option"
  c_number :: "int option"
  c_url :: "string option"
  c_assignees :: "string list option"
  c_labels :: "string list option"
  c_createdAt :: "string option"
  c_updatedAt :: "string option"

record field_value =
  fv_field_name :: "string option"
  fv_name :: "string option"

text \<open>
  An entry of \<open>fieldValues.nodes\<close> is \<open>None\<close> when it is falsy in Python: \<open>null\<close>, or the
  empty object that a field value of another kind than single-select comes back as.
\<close>

record raw_item_node =
  node_id :: string
  node_createdAt :: string
  node_updatedAt :: string
  node_content :: "content option"
  node_fieldValues :: "field_value option list"

record item =
  item_title :: string
  item_number :: "int option"
  item_url :: "string option"
  item_assignees :: string
  item_labels :: string
  item_status :: "string option"
  item_created_at :: string
  item_updated_at :: string

text \<open>\<open>node["content"] or {}\<close>: the object with no key stands in for \<open>null\<close>.\<close>

definition empty_content :: content where
  "empty_content = \<lparr>c_title = None, c_number = None, c_url = None, c_assignees = None,
     c_labels = None, c_createdAt = None, c_updatedAt = None\<rparr>"

definition content_or_empty :: "content option \<Rightarrow> content" where
  "content_or_empty c = (case c of None \<Rightarrow> empty_content | Some d \<Rightarrow> d)"

text \<open>\<open>d.get(key, default)\<close> on an optional field.\<close>

definition get_default :: "'a option \<Rightarrow> 'a \<Rightarrow> 'a" where
  "get_default v d = (case v of None \<Rightarrow> d | Some x \<Rightarrow> x)"

text \<open>One round of the loop over \<open>fieldValues.nodes\<close>, and the loop, which starts from \<open>None\<close>.\<close>

definition status_step :: "string option \<Rightarrow> field_value option \<Rightarrow> string option" where
  "status_step prev fv =
     (case fv of
        None \<Rightarrow> prev
      | Some f \<Rightarrow>
          if py_lower (get_default (fv_field_name f) []) = ''status'' then fv_name f
          else prev)"

definition extract_status :: "field_value option list \<Rightarrow> string option" where
  "extract_status fvs = foldl status_step None fvs"

text \<open>The body of the loop over the nodes of a page: the dict appended to \<open>items\<close>.\<close>

definition normalize_item :: "raw_item_node \<Rightarrow> item" where
  "normalize_item node =
     (let content = content_or_empty (node_content node) in
      \<lparr>item_title = get_default (c_title content) ''(No title)'',
       item_number = c_number content,
       item_url = c_url content,
       item_assignees =
         (case c_assignees content of None \<Rightarrow> [] | Some logins \<Rightarrow> py_join '', '' logins),
       item_labels =
         (case c_labels content of None \<Rightarrow> [] | Some names \<Rightarrow> py_join '', '' names),
       item_status = extract_status (node_fieldValues node),
       item_created_at = get_default (c_createdAt content) (node_createdAt node),
       item_updated_at = get_default (c_updatedAt content) (node_updatedAt node)\<rparr>)"

text \<open>
  The HTTP exchange. \<open>json_items\<close> is \<open>data["data"]["node"]["items"]\<close> of the decoded
  body, \<open>None\<close> when the body cannot be decoded or has no such path (decoding or the
  subscripts then raise). The network is a function from the number of the request and
  its variables to the response.
\<close>

record page =
  nodes :: "raw_item_node list"
  hasNextPage :: bool
  endCursor :: "string option"

record response =
  status_code :: int
  response_text :: string
  json_items :: "page option"

record variables =
  projectId :: string
  cursor :: "string option"

datatype error = QueryFailed int string | LookupFailed

type_synonym network = "nat \<Rightarrow> variables \<Rightarrow> response"

definition run_query :: "network \<Rightarrow> nat \<Rightarrow> variables \<Rightarrow> error + page option" where
  "run_query net i vars =
     (let response = net i vars in
      if status_code response \<noteq> 200
      then Inl (QueryFailed (status_code response) (response_text response))
      else Inr (json_items response))"

text \<open>
  The \<open>while True\<close> loop of \<open>get_all_project_items\<close>, with its state: the number of
  requests made, the cursor and the items so far. The result is \<open>None\<close> when the loop
  never ends, \<open>Some (Inl e)\<close> when an exception leaves it, \<open>Some (Inr items)\<close> when it
  returns.
\<close>

partial_function (option) fetch_loop ::
    "network \<Rightarrow> string \<Rightarrow> nat \<Rightarrow> string option \<Rightarrow> item list \<Rightarrow> (error + item list) option" where
  "fetch_loop net project_id i cur items =
     (case run_query net i \<lparr>projectId = project_id, cursor = cur\<rparr> of
        Inl e \<Rightarrow> Some (Inl e)
      | Inr None \<Rightarrow> Some (Inl LookupFailed)
      | Inr (Some pg) \<Rightarrow>
          (let items' = foldl (\<lambda>acc node. acc @ [normalize_item node]) items (nodes pg) in
           if \<not> hasNextPage pg then Some (Inr items')
           else fetch_loop net project_id (Suc i) (endCursor pg) items'))"

definition get_all_project_items :: "network \<Rightarrow> string \<Rightarrow> (error + item list) option" where
  "get_all_project_items net project_id = fetch_loop net project_id 0 None []"

section \<open>Vocabulary of the properties\<close>

text \<open>
  The entries of \<open>fieldValues\<close> that count for the status (a field named "status" in
  any letter case), and the value such an entry carries.
\<close>

definition is_status_entry :: "field_value option \<Rightarrow> bool" where
  "is_status_entry fv =
     (case fv of
        None \<Rightarrow> False
      | Some f \<Rightarrow> py_lower (get_default (fv_field_name f) []) = ''status'')"

definition entry_value :: "field_value option \<Rightarrow> string option" where
  "entry_value fv = (case fv of None \<Rightarrow> None | Some f \<Rightarrow> fv_name f)"

text \<open>
  The content of a draft item: the query selects only its title and timestamps, so the
  keys \<open>number\<close>, \<open>url\<close>, \<open>assignees\<close> and \<open>labels\<close> are absent.
\<close>

definition is_draft_item :: "content \<Rightarrow> bool" where
  "is_draft_item c =
     (c_number c = None \<and> c_url c = None \<and> c_assignees c = None \<and> c_labels c = None)"

text \<open>
  The network answers the requests \<open>i, i + 1, ...\<close> with the given pages, each with
  status 200 and a continuation flag that is set, when the loop sends the cursor it holds:
  \<open>cur\<close> first, then the end cursor of the page before.
\<close>

fun serves_pages :: "network \<Rightarrow> string \<Rightarrow> nat \<Rightarrow> string option \<Rightarrow> page list \<Rightarrow> bool" where
  "serves_pages net project_id i cur [] = True"
| "serves_pages net project_id i cur (pg # pgs) =
     (status_code (net i \<lparr>projectId = project_id, cursor = cur\<rparr>) = 200
      \<and> json_items (net i \<lparr>projectId = project_id, cursor = cur\<rparr>) = Some pg
      \<and> hasNextPage pg
      \<and> serves_pages net project_id (Suc i) (endCursor pg) pgs)"

definition cursor_after :: "string option \<Rightarrow> page list \<Rightarrow> string option" where
  "cursor_after cur pgs = (if pgs = [] then cur else endCursor (last pgs))"




section \<open>Example inputs\<close>

definition ns :: "int \<Rightarrow> int" where
  "ns d = d * ns_per_day"

text \<open>
  Two done rows, created on day 0 and day 10. At \<open>ns 101\<close> the first was updated one
  day ago, the second 30 days and 12 hours ago.
\<close>

definition early_done_row :: row where
  "early_done_row = \<lparr>title = Some ''Ship it'', number = Some 7, url = Some ''u7'',
     assignees = Some ''alice'', labels = Some ''bug'', status = Some ''Done'',
     created_at = 0, updated_at = ns 100\<rparr>"

definition late_done_row :: row where
  "late_done_row = \<lparr>title = Some ''Tidy up'', number = Some 8, url = Some ''u8'',
     assignees = Some ''bob'', labels = Some ''ui'', status = Some ''Done'',
     created_at = ns 10, updated_at = ns 70 + ns_per_day div 2\<rparr>"

definition lowercase_done_row :: row where
  "lowercase_done_row = \<lparr>title = Some ''Fix login'', number = Some 3, url = None,
     assignees = Some ''alice, bob'', labels = Some ''bug'', status = Some ''done'',
     created_at = 0, updated_at = ns 2\<rparr>"

definition backdated_row :: row where
  "backdated_row = \<lparr>title = Some ''Import'', number = Some 4, url = None,
     assignees = Some ''carol'', labels = None, status = Some ''Closed'',
     created_at = ns 10, updated_at = ns 10 - 1\<rparr>"




text \<open>
  Two closed rows, created on day 0 and day 10: the first was updated five days after its
  creation, the second 36 hours before it.
\<close>

definition slow_closed_row :: row where
  "slow_closed_row = \<lparr>title = Some ''Export'', number = Some 10, url = Some ''u10'',
     assignees = Some ''bob'', labels = Some ''ui'', status = Some ''Closed'',
     created_at = 0, updated_at = ns 5\<rparr>"

definition early_update_row :: row where
  "early_update_row = \<lparr>title = Some ''Import'', number = Some 11, url = Some ''u11'',
     assignees = Some ''carol'', labels = Some ''bug'', status = Some ''Closed'',
     created_at = ns 10, updated_at = ns 8 + ns_per_day div 2\<rparr>"

definition draft_content :: content where
  "draft_content = \<lparr>c_title = Some ''X'', c_number = None, c_url = None, c_assignees = None,
     c_labels = None, c_createdAt = Some ''T1'', c_updatedAt = Some ''T2''\<rparr>"

definition draft_node :: raw_item_node where
  "draft_node = \<lparr>node_id = ''PVTI_1'', node_createdAt = ''T0'', node_updatedAt = ''T3'',
     node_content = Some draft_content, node_fieldValues = []\<rparr>"

definition bare_node :: raw_item_node where
  "bare_node = \<lparr>node_id = ''PVTI_2'', node_createdAt = ''T0'', node_updatedAt = ''T3'',
     node_content = None,
     node_fieldValues = [None, Some \<lparr>fv_field_name = Some ''Status'', fv_name = Some ''Todo''\<rparr>]\<rparr>"

definition mixed_field_values :: "field_value option list" where
  "mixed_field_values =
     [Some \<lparr>fv_field_name = Some ''Status'', fv_name = Some ''Todo''\<rparr>,
      None,
      Some \<lparr>fv_field_name = Some ''STATUS'', fv_name = Some ''Done''\<rparr>,
      Some \<lparr>fv_field_name = Some ''Priority'', fv_name = Some ''High''\<rparr>]"

definition page_of :: "nat \<Rightarrow> bool \<Rightarrow> string option \<Rightarrow> page" where
  "page_of n has_more c = \<lparr>nodes = replicate n draft_node, hasNextPage = has_more, endCursor = c\<rparr>"

definition ok_response :: "page \<Rightarrow> response" where
  "ok_response pg = \<lparr>status_code = 200, response_text = [], json_items = Some pg\<rparr>"

definition bad_gateway :: response where
  "bad_gateway = \<lparr>status_code = 502, response_text = ''Bad Gateway'', json_items = None\<rparr>"

text \<open>A project of 237 items in pages of 100, 100 and 37.\<close>

definition three_page_net :: network where
  "three_page_net i vars =
     (if i = 0 \<and> cursor vars = None then ok_response (page_of 100 True (Some ''c1''))
      else if i = 1 \<and> cursor vars = Some ''c1'' then ok_response (page_of 100 True (Some ''c2''))
      else if i = 2 \<and> cursor vars = Some ''c2'' then ok_response (page_of 37 False None)
      else bad_gateway)"

text \<open>The same project when the second request fails.\<close>

definition failing_net :: network where
  "failing_net i vars =
     (if i = 0 \<and> cursor vars = None then ok_response (page_of 100 True (Some ''c1''))
      else bad_gateway)"

section \<open>Helper facts\<close>

lemma foldl_append_concat:
  "foldl (\<lambda>acc x. acc @ f x) acc0 xs = acc0 @ concat (map f xs)"
  by (induction xs arbitrary: acc0) auto

lemma foldl_snoc_map: "foldl (\<lambda>acc x. acc @ [f x]) acc0 xs = acc0 @ map f xs"
  by (induction xs arbitrary: acc0) auto

lemma isin_done: "isin s done_statuses \<longleftrightarrow> s = Some ''Done'' \<or> s = Some ''Closed''"
  by (cases s) (auto simp: isin_def done_statuses_def)

lemma dt_days_neg: "d < 0 \<Longrightarrow> dt_days d < 0"
  by (simp add: dt_days_def ns_per_day_def)

lemma py_lower_STATUS: "py_lower ''STATUS'' = ''status''"
  by code_simp

lemma py_lower_Status: "py_lower ''Status'' = ''status''"
  by code_simp

lemma py_lower_Priority: "py_lower ''Priority'' = ''priority''"
  by code_simp

lemma dt_days_floor: "dt_days d * ns_per_day \<le> d \<and> d < (dt_days d + 1) * ns_per_day"
proof -
  have pos: "0 < ns_per_day" by (simp add: ns_per_day_def)
  have e: "d div ns_per_day * ns_per_day + d mod ns_per_day = d"
    by (rule div_mult_mod_eq)
  from pos have lo: "0 \<le> d mod ns_per_day" and hi: "d mod ns_per_day < ns_per_day"
    by simp_all
  have x: "(d div ns_per_day + 1) * ns_per_day = d div ns_per_day * ns_per_day + ns_per_day"
    by (simp add: algebra_simps)
  from e lo have "d div ns_per_day * ns_per_day \<le> d" by linarith
  moreover from e hi x have "d < (d div ns_per_day + 1) * ns_per_day" by linarith
  ultimately show ?thesis unfolding dt_days_def by simp
qed

lemma py_whitespace_bytes:
  "py_whitespace =
     [[CHR 0x09], [CHR 0x0A], [CHR 0x0B], [CHR 0x0C], [CHR 0x0D], [CHR 0x1C],
      [CHR 0x1D], [CHR 0x1E], [CHR 0x1F], [CHR 0x20], [CHR 0xC2, CHR 0x85],
      [CHR 0xC2, CHR 0xA0], [CHR 0xE1, CHR 0x9A, CHR 0x80],
      [CHR 0xE2, CHR 0x80, CHR 0x80], [CHR 0xE2, CHR 0x80, CHR 0x81],
      [CHR 0xE2, CHR 0x80, CHR 0x82], [CHR 0xE2, CHR 0x80, CHR 0x83],
      [CHR 0xE2, CHR 0x80, CHR 0x84], [CHR 0xE2, CHR 0x80, CHR 0x85],
      [CHR 0xE2, CHR 0x80, CHR 0x86], [CHR 0xE2, CHR 0x80, CHR 0x87],
      [CHR 0xE2, CHR 0x80, CHR 0x88], [CHR 0xE2, CHR 0x80, CHR 0x89],
      [CHR 0xE2, CHR 0x80, CHR 0x8A], [CHR 0xE2, CHR 0x80, CHR 0xA8],
      [CHR 0xE2, CHR 0x80, CHR 0xA9], [CHR 0xE2, CHR 0x80, CHR 0xAF],
      [CHR 0xE2, CHR 0x81, CHR 0x9F], [CHR 0xE3, CHR 0x80, CHR 0x80]]"
  by (simp add: py_whitespace_def whitespace_code_points_def utf8_def char_of_def bit_Suc_0_iff)

text \<open>Stripping the pieces of the example cells. The equations of the two loops are only
  used on these closed strings.\<close>

lemma py_strip_names:
  "py_strip ''alice'' = ''alice''"
  "py_strip '' bob'' = ''bob''"
  by (simp_all add: py_strip_def py_lstrip.simps py_rstrip.simps py_whitespace_bytes suffix_Cons)



lemma tokens_alice_bob: "strip_tokens ''alice, bob'' = [''alice'', ''bob'']"
  by (simp add: strip_tokens_def py_strip_names)




section \<open>Properties of the metrics\<close>

subsection \<open>Recently closed items\<close>

text \<open>
  C1 (as amended). The recently-closed list holds, in data-frame order, exactly the rows
  that pass the creation-date filter, have a status in the done set and were updated at
  most 30 whole days before \<open>now\<close>, the difference being rounded down to days:
  \<open>completed_items\<close> is cut from \<open>filtered_df\<close>, so the date filter applies to this list
  as it does to the other metrics.
\<close>

theorem recently_closed_is_date_filtered:
  "recently_closed df start_date end_date now =
     filter (\<lambda>r. (status r = Some ''Done'' \<or> status r = Some ''Closed'')
                \<and> dt_days (now - updated_at r) \<le> 30
                \<and> start_date \<le> dt_date (created_at r) \<and> dt_date (created_at r) \<le> end_date) df"
  by (auto simp: recently_closed_def completed_items_def filtered_df_def isin_done
      intro: filter_cong)

text \<open>
  With the filter from day 5 to day 10, the done row created on day 0 is not listed
  although it was updated one day before \<open>now\<close>, and the done row created on day 10 is
  listed although it was updated more than 30 days before \<open>now\<close>.
\<close>

theorem recently_closed_unfiltered_counterexample:
  "status early_done_row = Some ''Done''
   \<and> ns 101 - updated_at early_done_row = ns 1
   \<and> status late_done_row = Some ''Done''
   \<and> ns 101 - updated_at late_done_row = ns 30 + ns_per_day div 2
   \<and> recently_closed [early_done_row, late_done_row] 5 10 (ns 101) = [late_done_row]"
  by (simp add: early_done_row_def late_done_row_def recently_closed_def completed_items_def
      filtered_df_def isin_def done_statuses_def dt_days_def dt_date_def ns_def ns_per_day_def)

subsection \<open>Completion rate\<close>

text \<open>
  C5. The completion rate of the filtered rows is the number of rows whose status is
  "Done" or "Closed", divided by the number of rows, times 100; it is 0 when there is no
  row.
\<close>

theorem completion_rate_formula:
  "completion_rate df start_date end_date =
     (if filtered_df df start_date end_date = [] then 0
      else real (length (filter (\<lambda>r. status r = Some ''Done'' \<or> status r = Some ''Closed'')
                           (filtered_df df start_date end_date)))
           / real (length (filtered_df df start_date end_date)) * 100)"
  by (simp add: completion_rate_def total_items_def completed_items_def isin_done)

theorem completion_rate_formula_witness:
  "completion_rate [] 0 20 = 0
   \<and> completion_rate [lowercase_done_row, backdated_row] 0 20 = 50
   \<and> completion_rate [lowercase_done_row, backdated_row] 30 40 = 0"
proof -
  have f: "filtered_df [lowercase_done_row, backdated_row] 0 20
      = [lowercase_done_row, backdated_row]"
    by (simp add: filtered_df_def lowercase_done_row_def backdated_row_def dt_date_def ns_def
        ns_per_day_def)
  have g: "filtered_df [lowercase_done_row, backdated_row] 30 40 = []"
    by (simp add: filtered_df_def lowercase_done_row_def backdated_row_def dt_date_def ns_def
        ns_per_day_def)
  have s: "status lowercase_done_row = Some ''done''" "status backdated_row = Some ''Closed''"
    by (simp_all add: lowercase_done_row_def backdated_row_def)
  have "completion_rate [] 0 20 = 0"
    using completion_rate_formula [of "[]" 0 20] by (simp add: filtered_df_def)
  moreover have "completion_rate [lowercase_done_row, backdated_row] 0 20 = 50"
    using completion_rate_formula [of "[lowercase_done_row, backdated_row]" 0 20]
    by (simp add: f s)
  moreover have "completion_rate [lowercase_done_row, backdated_row] 30 40 = 0"
    using completion_rate_formula [of "[lowercase_done_row, backdated_row]" 30 40]
    by (simp add: g)
  ultimately show ?thesis by simp
qed

subsection \<open>Stale and recently closed items\<close>

text \<open>
  C7. In one computation pass (one data frame, one date filter, one \<open>now\<close>) no row is in
  both the stale list and the recently-closed list: the first keeps only rows whose status
  is outside the done set, the second only rows whose status is inside it.
\<close>

theorem stale_recently_closed_disjoint:
  "set (stale df start_date end_date now) \<inter> set (recently_closed df start_date end_date now) = {}"
  by (auto simp: stale_def recently_closed_def completed_items_def)

subsection \<open>Exact matching of the done set\<close>

text \<open>
  C9. A row whose status is neither exactly "Done" nor exactly "Closed" (another letter
  case, any other text, or no status at all) is in none of the completed sets that feed the
  completion rate, the cycle time, the closed trend and the recently-closed list, and every
  entry it adds to the assignee table has the bucket "Open".
\<close>

theorem not_done_is_open:
  assumes "status r \<noteq> Some ''Done''" and "status r \<noteq> Some ''Closed''"
  shows "r \<notin> set (completed_items df start_date end_date)
       \<and> r \<notin> set (closed_df df start_date end_date)
       \<and> r \<notin> set (recently_closed df start_date end_date now)
       \<and> assignee_status_of r = map (\<lambda>a. (a, ''Open'')) (strip_tokens (py_str (assignees r)))
       \<and> assignee_status df start_date end_date
           = concat (map assignee_status_of (filtered_df df start_date end_date))"
proof -
  from assms have nd: "\<not> isin (status r) done_statuses"
    by (simp add: isin_done)
  have "r \<notin> set (completed_items df start_date end_date)"
    using nd by (simp add: completed_items_def)
  moreover have "r \<notin> set (closed_df df start_date end_date)"
    using nd by (simp add: closed_df_def)
  moreover have "r \<notin> set (recently_closed df start_date end_date now)"
    using nd by (simp add: recently_closed_def completed_items_def)
  moreover have "assignee_status_of r
      = map (\<lambda>a. (a, ''Open'')) (strip_tokens (py_str (assignees r)))"
    using nd by (simp add: assignee_status_of_def)
  moreover have "assignee_status df start_date end_date
      = concat (map assignee_status_of (filtered_df df start_date end_date))"
    by (simp add: assignee_status_def foldl_append_concat)
  ultimately show ?thesis by blast
qed

text \<open>
  The status "done", as it is extracted from a field named "STATUS", leaves its row out of
  the completed sets and puts both assignees in the bucket "Open".
\<close>

theorem not_done_is_open_witness:
  "status lowercase_done_row = Some ''done''
   \<and> completed_items [lowercase_done_row] 0 0 = []
   \<and> closed_df [lowercase_done_row] 0 0 = []
   \<and> recently_closed [lowercase_done_row] 0 0 (ns 3) = []
   \<and> assignee_status [lowercase_done_row] 0 0 = [(''alice'', ''Open''), (''bob'', ''Open'')]
   \<and> extract_status [Some \<lparr>fv_field_name = Some ''STATUS'', fv_name = Some ''done''\<rparr>]
       = Some ''done''"
proof -
  have f: "filtered_df [lowercase_done_row] 0 0 = [lowercase_done_row]"
    by (simp add: filtered_df_def lowercase_done_row_def dt_date_def ns_per_day_def)
  have s: "status lowercase_done_row = Some ''done''"
    by (simp add: lowercase_done_row_def)
  have a: "py_str (assignees lowercase_done_row) = ''alice, bob''"
    by (simp add: lowercase_done_row_def py_str_def)
  have c: "completed_items [lowercase_done_row] 0 0 = []"
    by (simp add: completed_items_def f s isin_def done_statuses_def)
  have e: "extract_status [Some \<lparr>fv_field_name = Some ''STATUS'', fv_name = Some ''done''\<rparr>]
       = Some ''done''"
    by (simp add: extract_status_def status_step_def get_default_def py_lower_STATUS)
  from not_done_is_open [of lowercase_done_row "[lowercase_done_row]" 0 0 "ns 3"]
  show ?thesis
    by (simp add: s f a c e tokens_alice_bob closed_df_def recently_closed_def isin_def
        done_statuses_def)
qed

subsection \<open>Cycle time\<close>

text \<open>
  C10. A completed row that was updated before it was created is not rejected and its
  cycle time is not raised to zero: its cycle time is the difference of the two timestamps
  rounded down to whole days, which is negative; it is one of the values averaged, and the
  mean is the sum of all these values over their number.
\<close>

theorem negative_cycle_time_counts:
  assumes "r \<in> set (completed_items df start_date end_date)"
      and "updated_at r < created_at r"
  shows "completion_days r < 0
       \<and> completion_days r * ns_per_day \<le> updated_at r - created_at r
       \<and> updated_at r - created_at r < (completion_days r + 1) * ns_per_day
       \<and> completion_days r \<in> set (map completion_days (completed_items df start_date end_date))
       \<and> avg_completion df start_date end_date
           = Some (real_of_int (\<Sum>x\<leftarrow>completed_items df start_date end_date. completion_days x)
                   / real (length (completed_items df start_date end_date)))"
proof -
  from assms(2) have "completion_days r < 0"
    by (simp add: completion_days_def dt_days_neg)
  moreover have "completion_days r * ns_per_day \<le> updated_at r - created_at r"
    and "updated_at r - created_at r < (completion_days r + 1) * ns_per_day"
    using dt_days_floor [of "updated_at r - created_at r"]
    by (simp_all add: completion_days_def)
  moreover from assms(1)
  have "completion_days r \<in> set (map completion_days (completed_items df start_date end_date))"
    by simp
  moreover from assms(1) have "completed_items df start_date end_date \<noteq> []"
    by auto
  then have "avg_completion df start_date end_date
      = Some (real_of_int (\<Sum>x\<leftarrow>completed_items df start_date end_date. completion_days x)
              / real (length (completed_items df start_date end_date)))"
    by (simp add: avg_completion_def mean_def)
  ultimately show ?thesis by blast
qed

text \<open>
  A closed row updated 36 hours before its creation has a cycle time of \<open>-2\<close> days; with
  a row closed after 5 days the mean is 1.5 days.
\<close>

theorem negative_cycle_time_counts_witness:
  "completed_items [slow_closed_row, early_update_row] 0 10 = [slow_closed_row, early_update_row]
   \<and> updated_at early_update_row - created_at early_update_row = - (ns 1 + ns_per_day div 2)
   \<and> completion_days early_update_row = - 2
   \<and> completion_days slow_closed_row = 5
   \<and> avg_completion [slow_closed_row, early_update_row] 0 10 = Some (3 / 2)"
proof -
  have c: "completed_items [slow_closed_row, early_update_row] 0 10
      = [slow_closed_row, early_update_row]"
    by (simp add: completed_items_def filtered_df_def slow_closed_row_def early_update_row_def
        dt_date_def ns_def ns_per_day_def isin_def done_statuses_def)
  have d: "completion_days early_update_row = - 2" "completion_days slow_closed_row = 5"
    by (simp_all add: completion_days_def dt_days_def slow_closed_row_def early_update_row_def
        ns_def ns_per_day_def)
  have u: "updated_at early_update_row - created_at early_update_row
      = - (ns 1 + ns_per_day div 2)"
    by (simp add: early_update_row_def ns_def ns_per_day_def)
  have m: "early_update_row \<in> set (completed_items [slow_closed_row, early_update_row] 0 10)"
    by (simp add: c)
  have l: "updated_at early_update_row < created_at early_update_row"
    by (simp add: early_update_row_def ns_def ns_per_day_def)
  from negative_cycle_time_counts [OF m l]
  have "avg_completion [slow_closed_row, early_update_row] 0 10 = Some (3 / 2)"
    by (simp add: c d)
  with c d u show ?thesis by simp
qed

subsection \<open>Label frequency\<close>




























section \<open>Properties of the item normalizer\<close>

subsection \<open>Status extraction\<close>

lemma status_step_entry:
  "status_step prev fv = (if is_status_entry fv then entry_value fv else prev)"
  by (cases fv) (simp_all add: status_step_def is_status_entry_def entry_value_def)

lemma extract_status_snoc:
  "extract_status (fvs @ [fv]) = status_step (extract_status fvs) fv"
  by (simp add: extract_status_def)

text \<open>
  C3. The extracted status is the value of the last entry of \<open>fieldValues\<close> whose field
  name is "status" in any letter case, so a later entry overwrites an earlier one; it is
  null when there is no such entry.
\<close>

theorem status_is_last_status_entry:
  "extract_status fvs =
     (if filter is_status_entry fvs = [] then None
      else entry_value (last (filter is_status_entry fvs)))"
proof (induction fvs rule: rev_induct)
  case Nil
  show ?case by (simp add: extract_status_def)
next
  case (snoc fv fvs)
  show ?case
    by (simp add: extract_status_snoc snoc.IH status_step_entry)
qed

theorem status_is_last_status_entry_witness:
  "filter is_status_entry mixed_field_values =
     [Some \<lparr>fv_field_name = Some ''Status'', fv_name = Some ''Todo''\<rparr>,
      Some \<lparr>fv_field_name = Some ''STATUS'', fv_name = Some ''Done''\<rparr>]
   \<and> extract_status mixed_field_values = Some ''Done''
   \<and> extract_status [None, Some \<lparr>fv_field_name = Some ''Priority'', fv_name = Some ''High''\<rparr>]
       = None"
proof -
  have f: "filter is_status_entry mixed_field_values =
     [Some \<lparr>fv_field_name = Some ''Status'', fv_name = Some ''Todo''\<rparr>,
      Some \<lparr>fv_field_name = Some ''STATUS'', fv_name = Some ''Done''\<rparr>]"
    by (simp add: mixed_field_values_def is_status_entry_def get_default_def py_lower_Status
        py_lower_STATUS py_lower_Priority)
  have g: "filter is_status_entry
      [None, Some \<lparr>fv_field_name = Some ''Priority'', fv_name = Some ''High''\<rparr>] = []"
    by (simp add: is_status_entry_def get_default_def py_lower_Priority)
  have "extract_status mixed_field_values = Some ''Done''"
    using status_is_last_status_entry [of mixed_field_values]
    by (simp add: f entry_value_def)
  moreover have "extract_status
      [None, Some \<lparr>fv_field_name = Some ''Priority'', fv_name = Some ''High''\<rparr>] = None"
    using status_is_last_status_entry
      [of "[None, Some \<lparr>fv_field_name = Some ''Priority'', fv_name = Some ''High''\<rparr>]"]
    unfolding g by simp
  ultimately show ?thesis using f by simp
qed

subsection \<open>Items without issue fields\<close>

text \<open>
  C4. For a node whose content is null or a draft item, the flattened item has the title
  of the content or "(No title)" when there is none, no number and no url, empty assignee
  and label texts, and the timestamps of the content when it has them, those of the node
  otherwise. The function is total: no input makes it fail.
\<close>

theorem normalize_item_without_issue_fields:
  assumes "node_content node = None \<or> (\<exists>c. node_content node = Some c \<and> is_draft_item c)"
  shows "normalize_item node =
     \<lparr>item_title = get_default (c_title (content_or_empty (node_content node))) ''(No title)'',
      item_number = None,
      item_url = None,
      item_assignees = [],
      item_labels = [],
      item_status = extract_status (node_fieldValues node),
      item_created_at =
        (case c_createdAt (content_or_empty (node_content node)) of
           None \<Rightarrow> node_createdAt node | Some t \<Rightarrow> t),
      item_updated_at =
        (case c_updatedAt (content_or_empty (node_content node)) of
           None \<Rightarrow> node_updatedAt node | Some t \<Rightarrow> t)\<rparr>
    \<and> (node_content node = None \<longrightarrow>
         item_title (normalize_item node) = ''(No title)''
         \<and> item_created_at (normalize_item node) = node_createdAt node
         \<and> item_updated_at (normalize_item node) = node_updatedAt node)"
  using assms
  by (auto simp: normalize_item_def Let_def content_or_empty_def empty_content_def
      is_draft_item_def get_default_def)

theorem normalize_item_without_issue_fields_witness:
  "normalize_item draft_node =
     \<lparr>item_title = ''X'', item_number = None, item_url = None, item_assignees = [],
      item_labels = [], item_status = None, item_created_at = ''T1'', item_updated_at = ''T2''\<rparr>
   \<and> normalize_item bare_node =
     \<lparr>item_title = ''(No title)'', item_number = None, item_url = None, item_assignees = [],
      item_labels = [], item_status = Some ''Todo'', item_created_at = ''T0'',
      item_updated_at = ''T3''\<rparr>"
proof -
  have e: "extract_status (node_fieldValues bare_node) = Some ''Todo''"
    by (simp add: bare_node_def extract_status_def status_step_def get_default_def
        py_lower_Status)
  have d: "is_draft_item draft_content"
    by (simp add: is_draft_item_def draft_content_def)
  have h1: "node_content draft_node = None
      \<or> (\<exists>c. node_content draft_node = Some c \<and> is_draft_item c)"
    by (simp add: draft_node_def d)
  have h2: "node_content bare_node = None
      \<or> (\<exists>c. node_content bare_node = Some c \<and> is_draft_item c)"
    by (simp add: bare_node_def)
  from normalize_item_without_issue_fields [OF h1]
  have "normalize_item draft_node =
     \<lparr>item_title = ''X'', item_number = None, item_url = None, item_assignees = [],
      item_labels = [], item_status = None, item_created_at = ''T1'', item_updated_at = ''T2''\<rparr>"
    by (simp add: draft_node_def draft_content_def content_or_empty_def get_default_def
        extract_status_def)
  moreover from normalize_item_without_issue_fields [OF h2]
  have "normalize_item bare_node =
     \<lparr>item_title = ''(No title)'', item_number = None, item_url = None, item_assignees = [],
      item_labels = [], item_status = Some ''Todo'', item_created_at = ''T0'',
      item_updated_at = ''T3''\<rparr>"
    using e by (simp add: bare_node_def content_or_empty_def empty_content_def get_default_def)
  ultimately show ?thesis by simp
qed

section \<open>Properties of the snapshot assembly\<close>

lemma fetch_loop_pages:
  "serves_pages net pid i cur pgs \<Longrightarrow>
   fetch_loop net pid i cur items
     = fetch_loop net pid (i + length pgs) (cursor_after cur pgs)
         (items @ concat (map (\<lambda>pg. map normalize_item (nodes pg)) pgs))"
proof (induction pgs arbitrary: i cur items)
  case Nil
  then show ?case by (simp add: cursor_after_def)
next
  case (Cons pg pgs)
  from Cons.prems have ok: "status_code (net i \<lparr>projectId = pid, cursor = cur\<rparr>) = 200"
      "json_items (net i \<lparr>projectId = pid, cursor = cur\<rparr>) = Some pg" "hasNextPage pg"
    and rest: "serves_pages net pid (Suc i) (endCursor pg) pgs"
    by simp_all
  have step: "fetch_loop net pid i cur items
      = fetch_loop net pid (Suc i) (endCursor pg) (items @ map normalize_item (nodes pg))"
    by (subst fetch_loop.simps) (simp add: run_query_def ok foldl_snoc_map)
  have cur: "cursor_after (endCursor pg) pgs = cursor_after cur (pg # pgs)"
    by (simp add: cursor_after_def)
  show ?case
    unfolding step Cons.IH [OF rest] cur by simp
qed

text \<open>
  C6. When the network serves a finite sequence of pages, all but the last with the
  continuation flag set and the last with the flag cleared, the loop ends and returns the
  flattened items of every page, page after page and in the order of each page. For pages
  of 100, 100 and 37 nodes the result has 237 items.
\<close>

theorem assembly_concatenates_pages:
  assumes "serves_pages net pid 0 None pgs"
      and "status_code (net (length pgs) \<lparr>projectId = pid, cursor = cursor_after None pgs\<rparr>) = 200"
      and "json_items (net (length pgs) \<lparr>projectId = pid, cursor = cursor_after None pgs\<rparr>)
             = Some last_pg"
      and "\<not> hasNextPage last_pg"
  shows "get_all_project_items net pid
           = Some (Inr (concat (map (\<lambda>pg. map normalize_item (nodes pg)) (pgs @ [last_pg]))))
       \<and> (map (\<lambda>pg. length (nodes pg)) (pgs @ [last_pg]) = [100, 100, 37]
            \<longrightarrow> length (concat (map (\<lambda>pg. map normalize_item (nodes pg)) (pgs @ [last_pg]))) = 237)"
proof -
  have "get_all_project_items net pid
      = fetch_loop net pid (length pgs) (cursor_after None pgs)
          (concat (map (\<lambda>pg. map normalize_item (nodes pg)) pgs))"
    using fetch_loop_pages [OF assms(1), of "[]"] by (simp add: get_all_project_items_def)
  also have "\<dots> = Some (Inr (concat (map (\<lambda>pg. map normalize_item (nodes pg)) pgs)
                              @ map normalize_item (nodes last_pg)))"
    by (subst fetch_loop.simps) (simp add: run_query_def assms foldl_snoc_map)
  finally have a: "get_all_project_items net pid
      = Some (Inr (concat (map (\<lambda>pg. map normalize_item (nodes pg)) (pgs @ [last_pg]))))"
    by simp
  have b: "length (concat (map (\<lambda>pg. map normalize_item (nodes pg)) (pgs @ [last_pg]))) = 237"
    if "map (\<lambda>pg. length (nodes pg)) (pgs @ [last_pg]) = [100, 100, 37]"
  proof -
    have "length (concat (map (\<lambda>pg. map normalize_item (nodes pg)) (pgs @ [last_pg])))
        = sum_list (map (\<lambda>pg. length (nodes pg)) (pgs @ [last_pg]))"
      by (simp add: length_concat comp_def)
    then show ?thesis unfolding that by simp
  qed
  from a b show ?thesis by blast
qed

theorem assembly_concatenates_pages_witness:
  "get_all_project_items three_page_net ''P''
     = Some (Inr (replicate 237 (normalize_item draft_node)))
   \<and> length (replicate 237 (normalize_item draft_node)) = 237"
  using assembly_concatenates_pages [of three_page_net "''P''"
      "[page_of 100 True (Some ''c1''), page_of 100 True (Some ''c2'')]" "page_of 37 False None"]
  by (simp add: three_page_net_def ok_response_def page_of_def cursor_after_def
      replicate_add [symmetric] del: replicate_add)

text \<open>
  C8. When a request gets a status other than 200, after any number of pages served
  before it, \<open>run_query\<close> raises, the exception leaves \<open>get_all_project_items\<close>, and no
  list of items is returned, whatever had been collected.
\<close>

theorem failed_request_aborts_assembly:
  assumes "serves_pages net pid 0 None pgs"
      and "status_code (net (length pgs) \<lparr>projectId = pid, cursor = cursor_after None pgs\<rparr>) \<noteq> 200"
  shows "run_query net (length pgs) \<lparr>projectId = pid, cursor = cursor_after None pgs\<rparr>
           = Inl (QueryFailed
               (status_code (net (length pgs) \<lparr>projectId = pid, cursor = cursor_after None pgs\<rparr>))
               (response_text (net (length pgs) \<lparr>projectId = pid, cursor = cursor_after None pgs\<rparr>)))
       \<and> get_all_project_items net pid
           = Some (Inl (QueryFailed
               (status_code (net (length pgs) \<lparr>projectId = pid, cursor = cursor_after None pgs\<rparr>))
               (response_text (net (length pgs) \<lparr>projectId = pid, cursor = cursor_after None pgs\<rparr>))))
       \<and> get_all_project_items net pid \<noteq> Some (Inr partial_items)"
proof -
  have rq: "run_query net (length pgs) \<lparr>projectId = pid, cursor = cursor_after None pgs\<rparr>
           = Inl (QueryFailed
               (status_code (net (length pgs) \<lparr>projectId = pid, cursor = cursor_after None pgs\<rparr>))
               (response_text (net (length pgs) \<lparr>projectId = pid, cursor = cursor_after None pgs\<rparr>)))"
    using assms(2) by (simp add: run_query_def Let_def)
  have "get_all_project_items net pid
      = fetch_loop net pid (length pgs) (cursor_after None pgs)
          (concat (map (\<lambda>pg. map normalize_item (nodes pg)) pgs))"
    using fetch_loop_pages [OF assms(1), of "[]"] by (simp add: get_all_project_items_def)
  also have "\<dots> = Some (Inl (QueryFailed
               (status_code (net (length pgs) \<lparr>projectId = pid, cursor = cursor_after None pgs\<rparr>))
               (response_text (net (length pgs) \<lparr>projectId = pid, cursor = cursor_after None pgs\<rparr>))))"
    by (subst fetch_loop.simps) (simp add: rq)
  finally show ?thesis using rq by simp
qed

theorem failed_request_aborts_assembly_witness:
  "get_all_project_items failing_net ''P'' = Some (Inl (QueryFailed 502 ''Bad Gateway''))"
  using failed_request_aborts_assembly [of failing_net "''P''" "[page_of 100 True (Some ''c1'')]"]
  by (simp add: failing_net_def ok_response_def page_of_def cursor_after_def bad_gateway_def)

end
